theory Spec2Isabelle
  imports Main "HOL-Library.Word" "HOL-Library.Signed_Division"
begin

section \<open>Lifecycle hooks and their trace\<close>

text \<open>
  The hooks of a plugin (\<^verbatim>\<open>Initialize\<close>, \<^verbatim>\<open>Shutdown\<close>) and of a registered tool
  (\<^verbatim>\<open>Initialize\<close>, \<^verbatim>\<open>Cleanup\<close>) are code the repository calls but does not contain.
  Every call of a plugin hook is recorded in a trace, and the outcome of a hook (\<open>None\<close>
  for a nil error, \<open>Some msg\<close> for an error) may depend on the trace so far, so a hook
  may fail the first time and succeed the second.
\<close>

datatype event = InitializeCalled nat | ShutdownCalled nat

type_synonym trace = "event list"

type_synonym hook = "trace \<Rightarrow> string option \<times> trace"

text \<open>\<^verbatim>\<open>DynamicPlugin\<close> (interface): \<open>dp_id\<close> identifies the instance behind the interface.\<close>

record DynamicPlugin =
  dp_id :: nat
  dp_Name :: string
  dp_Version :: string
  dp_Description :: string
  dp_Initialize_result :: "trace \<Rightarrow> string option"
  dp_Shutdown_result :: "trace \<Rightarrow> string option"

definition DynamicPlugin_Initialize :: "DynamicPlugin \<Rightarrow> hook" where
  "DynamicPlugin_Initialize p tr = (dp_Initialize_result p tr, tr @ [InitializeCalled (dp_id p)])"

definition DynamicPlugin_Shutdown :: "DynamicPlugin \<Rightarrow> hook" where
  "DynamicPlugin_Shutdown p tr = (dp_Shutdown_result p tr, tr @ [ShutdownCalled (dp_id p)])"

text \<open>\<^verbatim>\<open>PluginMetadata\<close>: the decoded \<^verbatim>\<open>plugin.json\<close> (the schema object is kept as text).\<close>

record PluginMetadata =
  md_Name :: string
  md_Version :: string
  md_Description :: string
  md_Author :: string
  md_APIVersion :: string
  md_EntryPoint :: string
  md_Dependencies :: "string list"
  md_Permissions :: "string list"
  md_ConfigSchema :: string

text \<open>\<^verbatim>\<open>MCPToolPlugin\<close> (interface): the methods the registry calls.\<close>

record MCPToolPlugin =
  tool_Name :: string
  tool_Version :: string
  tool_Description :: string
  tool_Initialize :: hook
  tool_Cleanup :: hook

record DynamicPluginAdapter =
  adapter_plugin :: DynamicPlugin
  adapter_metadata :: PluginMetadata

definition DynamicPluginAdapter_Initialize :: "DynamicPluginAdapter \<Rightarrow> hook" where
  "DynamicPluginAdapter_Initialize dpa tr = (None, tr)"

definition DynamicPluginAdapter_Cleanup :: "DynamicPluginAdapter \<Rightarrow> hook" where
  "DynamicPluginAdapter_Cleanup dpa tr = DynamicPlugin_Shutdown (adapter_plugin dpa) tr"

text \<open>The adapter seen through the \<^verbatim>\<open>MCPToolPlugin\<close> interface.\<close>

definition adapter_tool :: "DynamicPluginAdapter \<Rightarrow> MCPToolPlugin" where
  "adapter_tool dpa =
     \<lparr>tool_Name = dp_Name (adapter_plugin dpa),
      tool_Version = dp_Version (adapter_plugin dpa),
      tool_Description = dp_Description (adapter_plugin dpa),
      tool_Initialize = DynamicPluginAdapter_Initialize dpa,
      tool_Cleanup = DynamicPluginAdapter_Cleanup dpa\<rparr>"

section \<open>Errors\<close>

text \<open>
  A symbol of a loaded unit, by what the two type assertions of \<^verbatim>\<open>LoadPlugin\<close> see:
  a non-nil \<^verbatim>\<open>*DynamicPlugin\<close> (pointing at an interface value, which may itself be nil),
  a nil \<^verbatim>\<open>*DynamicPlugin\<close>, a value whose type implements \<^verbatim>\<open>DynamicPlugin\<close>, or a
  value of another type (with the name of the type).
\<close>

datatype symbol =
    PluginPointer "DynamicPlugin option"
  | NilPluginPointer
  | PluginValue DynamicPlugin
  | OtherSymbol string

datatype error =
    ToolNil
  | ToolNameEmpty
  | ToolAlreadyRegistered string
  | ToolInitializeFailed string string
  | ToolNotFound string
  | DiscoveryAlreadyRunning
  | CreateDirectoryFailed string
  | ReadDirectoryFailed string
  | PluginNotFound string
  | PluginAlreadyLoaded string
  | PluginDirectoryNotFound string
  | PluginOpenFailed string string
  | PluginSymbolNotFound string string
  | NotDynamicPlugin string symbol
  | PluginInitializeFailed string string
  | PluginRegisterFailed string error
  | PluginNotLoaded string
  | PluginShutdownFailed string string
  | UnloadForReloadFailed error
  | NilInterfacePanic
  | ManifestReadFailed string
  | ManifestParseFailed string
  | PluginNameRequired
  | PluginVersionRequired
  | PluginEntryPointRequired
  | TransportAlreadyRunning string
  | ServerShutdownFailed string

section \<open>Tool registry (internal/registry/registry.go)\<close>

text \<open>
  \<open>discoveryLoops\<close> counts the \<^verbatim>\<open>periodicDiscoveryLoop\<close> goroutines launched and not
  yet told to stop by closing \<^verbatim>\<open>stopDiscovery\<close>.
\<close>

record Registry =
  tools :: "string \<rightharpoonup> MCPToolPlugin"
  discoveryEnabled :: bool
  discoveryRunning :: bool
  discoveryLoops :: nat

definition NewRegistry :: "bool \<Rightarrow> Registry" where
  "NewRegistry enabled =
     \<lparr>tools = Map.empty, discoveryEnabled = enabled, discoveryRunning = False,
      discoveryLoops = 0\<rparr>"

definition RegisterTool ::
  "MCPToolPlugin option \<Rightarrow> Registry \<Rightarrow> trace \<Rightarrow> error option \<times> Registry \<times> trace" where
  "RegisterTool tool r tr =
     (case tool of
        None \<Rightarrow> (Some ToolNil, r, tr)
      | Some t \<Rightarrow>
          let name = tool_Name t in
          if name = [] then (Some ToolNameEmpty, r, tr)
          else if tools r name \<noteq> None then (Some (ToolAlreadyRegistered name), r, tr)
          else
            (case tool_Initialize t tr of
               (Some err, tr') \<Rightarrow> (Some (ToolInitializeFailed name err), r, tr')
             | (None, tr') \<Rightarrow> (None, r\<lparr>tools := (tools r)(name \<mapsto> t)\<rparr>, tr')))"

definition UnregisterTool ::
  "string \<Rightarrow> Registry \<Rightarrow> trace \<Rightarrow> error option \<times> Registry \<times> trace" where
  "UnregisterTool name r tr =
     (case tools r name of
        None \<Rightarrow> (Some (ToolNotFound name), r, tr)
      | Some tool \<Rightarrow>
          (case tool_Cleanup tool tr of
             (_, tr') \<Rightarrow> (None, r\<lparr>tools := (tools r)(name := None)\<rparr>, tr')))"

definition GetTool :: "string \<Rightarrow> Registry \<Rightarrow> error + MCPToolPlugin" where
  "GetTool name r = (case tools r name of None \<Rightarrow> Inl (ToolNotFound name) | Some t \<Rightarrow> Inr t)"

definition StartPeriodicDiscovery :: "Registry \<Rightarrow> error option \<times> Registry" where
  "StartPeriodicDiscovery r =
     (if \<not> discoveryEnabled r then (None, r)
      else if discoveryRunning r then (Some DiscoveryAlreadyRunning, r)
      else (None, r\<lparr>discoveryRunning := True, discoveryLoops := discoveryLoops r + 1\<rparr>))"

definition StopPeriodicDiscovery :: "Registry \<Rightarrow> error option \<times> Registry" where
  "StopPeriodicDiscovery r =
     (if \<not> discoveryRunning r then (None, r)
      else (None, r\<lparr>discoveryRunning := False, discoveryLoops := 0\<rparr>))"

section \<open>Plugin manager (pkg/plugin, manager)\<close>

text \<open>
  What the manager asks of the operating system and of the Go runtime: path joining,
  directory creation and listing (entry name, is-directory flag), whether \<^verbatim>\<open>os.Stat\<close>
  reports a missing file, file reading, JSON decoding into \<^verbatim>\<open>PluginMetadata\<close>, and
  \<^verbatim>\<open>plugin.Open\<close>, which gives an error or the symbol table of the opened unit
  (\<^verbatim>\<open>Lookup\<close> fails on a name that is not in the table).
\<close>

record runtime =
  filepath_Join :: "string \<Rightarrow> string \<Rightarrow> string"
  os_MkdirAll :: "string \<Rightarrow> string option"
  os_ReadDir :: "string \<Rightarrow> string + (string \<times> bool) list"
  os_Stat_IsNotExist :: "string \<Rightarrow> bool"
  os_ReadFile :: "string \<Rightarrow> string + string"
  json_Unmarshal :: "string \<Rightarrow> string + PluginMetadata"
  plugin_Open :: "string \<Rightarrow> string + (string \<rightharpoonup> symbol)"

record LoadedPlugin =
  lp_Metadata :: PluginMetadata
  lp_Plugin :: DynamicPlugin
  lp_LoadedAt :: int
  lp_Directory :: string
  lp_Enabled :: bool

text \<open>
  \<open>registry\<close> is \<open>None\<close> for a nil \<^verbatim>\<open>ToolRegistry\<close>; otherwise it holds the state of the
  registry the manager was constructed with.
\<close>

record PluginManager =
  plugins :: "string \<rightharpoonup> LoadedPlugin"
  pluginPaths :: "string \<rightharpoonup> string"
  registry :: "Registry option"
  baseDir :: string
  discovered :: "string \<rightharpoonup> PluginMetadata"
  loaded :: "string \<rightharpoonup> DynamicPluginAdapter"

definition NewPluginManager :: "string \<Rightarrow> Registry option \<Rightarrow> PluginManager" where
  "NewPluginManager dir reg =
     \<lparr>plugins = Map.empty, pluginPaths = Map.empty, registry = reg, baseDir = dir,
      discovered = Map.empty, loaded = Map.empty\<rparr>"

definition loadMetadata :: "runtime \<Rightarrow> string \<Rightarrow> error + PluginMetadata" where
  "loadMetadata rt path =
     (case os_ReadFile rt path of
        Inl err \<Rightarrow> Inl (ManifestReadFailed err)
      | Inr data \<Rightarrow>
          (case json_Unmarshal rt data of
             Inl err \<Rightarrow> Inl (ManifestParseFailed err)
           | Inr metadata \<Rightarrow>
               if md_Name metadata = [] then Inl PluginNameRequired
               else if md_Version metadata = [] then Inl PluginVersionRequired
               else if md_EntryPoint metadata = [] then Inl PluginEntryPointRequired
               else Inr metadata))"

text \<open>The body of the scan loop of \<^verbatim>\<open>DiscoverPlugins\<close>, for one directory entry.\<close>

definition discover_entry :: "runtime \<Rightarrow> string \<times> bool \<Rightarrow> PluginManager \<Rightarrow> PluginManager" where
  "discover_entry rt entry pm =
     (if \<not> snd entry then pm
      else
        let pluginDir = filepath_Join rt (baseDir pm) (fst entry);
            metadataPath = filepath_Join rt pluginDir ''plugin.json''
        in if os_Stat_IsNotExist rt metadataPath then pm
           else
             (case loadMetadata rt metadataPath of
                Inl err \<Rightarrow> pm
              | Inr metadata \<Rightarrow>
                  pm\<lparr>pluginPaths := (pluginPaths pm)(md_Name metadata \<mapsto> pluginDir),
                     discovered := (discovered pm)(md_Name metadata \<mapsto> metadata)\<rparr>))"

definition DiscoverPlugins :: "runtime \<Rightarrow> PluginManager \<Rightarrow> error option \<times> PluginManager" where
  "DiscoverPlugins rt pm =
     (case os_MkdirAll rt (baseDir pm) of
        Some err \<Rightarrow> (Some (CreateDirectoryFailed err), pm)
      | None \<Rightarrow>
          (case os_ReadDir rt (baseDir pm) of
             Inl err \<Rightarrow> (Some (ReadDirectoryFailed err), pm)
           | Inr entries \<Rightarrow> (None, fold (discover_entry rt) entries pm)))"

text \<open>
  The two type assertions of \<^verbatim>\<open>LoadPlugin\<close>: a non-nil pointer is dereferenced (to a
  possibly nil interface value), a direct value is taken as it is, anything else is
  refused.
\<close>

fun assert_DynamicPlugin :: "symbol \<Rightarrow> DynamicPlugin option option" where
  "assert_DynamicPlugin (PluginPointer target) = Some target"
| "assert_DynamicPlugin (PluginValue p) = Some (Some p)"
| "assert_DynamicPlugin NilPluginPointer = None"
| "assert_DynamicPlugin (OtherSymbol ty) = None"

definition LoadPlugin ::
  "runtime \<Rightarrow> string \<Rightarrow> PluginManager \<Rightarrow> trace \<Rightarrow> error option \<times> PluginManager \<times> trace" where
  "LoadPlugin rt name pm tr =
     (case discovered pm name of
        None \<Rightarrow> (Some (PluginNotFound name), pm, tr)
      | Some pluginInfo \<Rightarrow>
     if loaded pm name \<noteq> None then (Some (PluginAlreadyLoaded name), pm, tr)
     else
     (case pluginPaths pm name of
        None \<Rightarrow> (Some (PluginDirectoryNotFound name), pm, tr)
      | Some pluginDir \<Rightarrow>
     (case plugin_Open rt (filepath_Join rt pluginDir (name @ ''.so'')) of
        Inl err \<Rightarrow> (Some (PluginOpenFailed name err), pm, tr)
      | Inr p \<Rightarrow>
     (case p ''Plugin'' of
        None \<Rightarrow> (Some (PluginSymbolNotFound name ''Plugin''), pm, tr)
      | Some symb \<Rightarrow>
     (case assert_DynamicPlugin symb of
        None \<Rightarrow> (Some (NotDynamicPlugin name symb), pm, tr)
      | Some None \<Rightarrow> (Some NilInterfacePanic, pm, tr)
      | Some (Some dynamicPlugin) \<Rightarrow>
     (case DynamicPlugin_Initialize dynamicPlugin tr of
        (Some err, tr1) \<Rightarrow> (Some (PluginInitializeFailed name err), pm, tr1)
      | (None, tr1) \<Rightarrow>
          let adapter = \<lparr>adapter_plugin = dynamicPlugin, adapter_metadata = pluginInfo\<rparr> in
          (case registry pm of
             None \<Rightarrow> (None, pm\<lparr>loaded := (loaded pm)(name \<mapsto> adapter)\<rparr>, tr1)
           | Some r \<Rightarrow>
               (case RegisterTool (Some (adapter_tool adapter)) r tr1 of
                  (Some err, r', tr2) \<Rightarrow>
                    (Some (PluginRegisterFailed name err), pm\<lparr>registry := Some r'\<rparr>,
                     snd (DynamicPlugin_Shutdown dynamicPlugin tr2))
                | (None, r', tr2) \<Rightarrow>
                    (None, pm\<lparr>registry := Some r', loaded := (loaded pm)(name \<mapsto> adapter)\<rparr>,
                     tr2)))))))))"

definition UnloadPlugin ::
  "string \<Rightarrow> PluginManager \<Rightarrow> trace \<Rightarrow> error option \<times> PluginManager \<times> trace" where
  "UnloadPlugin name pm tr =
     (case loaded pm name of
        None \<Rightarrow> (Some (PluginNotLoaded name), pm, tr)
      | Some loadedPlugin \<Rightarrow>
          let (pm1, tr1) =
                (case registry pm of
                   None \<Rightarrow> (pm, tr)
                 | Some r \<Rightarrow>
                     (case UnregisterTool name r tr of
                        (_, r', tr') \<Rightarrow> (pm\<lparr>registry := Some r'\<rparr>, tr')))
          in (case DynamicPlugin_Shutdown (adapter_plugin loadedPlugin) tr1 of
                (Some err, tr2) \<Rightarrow> (Some (PluginShutdownFailed name err), pm1, tr2)
              | (None, tr2) \<Rightarrow> (None, pm1\<lparr>loaded := (loaded pm1)(name := None)\<rparr>, tr2)))"

definition ReloadPlugin ::
  "runtime \<Rightarrow> string \<Rightarrow> PluginManager \<Rightarrow> trace \<Rightarrow> error option \<times> PluginManager \<times> trace" where
  "ReloadPlugin rt name pm tr =
     (let isLoaded = (plugins pm name \<noteq> None) in
      if isLoaded then
        (case UnloadPlugin name pm tr of
           (Some err, pm', tr') \<Rightarrow> (Some (UnloadForReloadFailed err), pm', tr')
         | (None, pm', tr') \<Rightarrow> LoadPlugin rt name pm' tr')
      else LoadPlugin rt name pm tr)"

section \<open>Transport adapters (pkg/mcp/transport)\<close>

text \<open>
  Each adapter is modelled by its lock-protected sections, which run atomically: the body
  of \<^verbatim>\<open>Start\<close>, the body of \<^verbatim>\<open>Stop\<close>, \<^verbatim>\<open>IsHealthy\<close>, and the deferred function of the
  goroutine \<^verbatim>\<open>Start\<close> launches, which runs when the goroutine's serving call returns.
  The fields ending in \<open>goroutines\<close> count the launched goroutines that have not
  returned. An address is the host and port that \<^verbatim>\<open>Start\<close> formats into \<^verbatim>\<open>Addr\<close>.
\<close>

type_synonym address = "string \<times> int"

text \<open>What \<^verbatim>\<open>ListenAndServe\<close> returns: \<^verbatim>\<open>http.ErrServerClosed\<close> or another error.\<close>

datatype serve_error = ErrServerClosed | ServeError string

text \<open>
  The network: the error of binding a listener to an address, \<open>None\<close> when the address
  can be bound.
\<close>

type_synonym network = "address \<Rightarrow> string option"

record http_Server =
  srv_Addr :: address

record HTTPConfig =
  http_Host :: string
  http_Port :: int
  http_Timeout :: int

record HTTPAdapter =
  http_httpServer :: "http_Server option"
  http_config :: HTTPConfig
  http_running :: bool
  http_goroutines :: nat

definition NewHTTPAdapter :: "HTTPConfig \<Rightarrow> HTTPAdapter" where
  "NewHTTPAdapter config =
     \<lparr>http_httpServer = None, http_config = config, http_running = False, http_goroutines = 0\<rparr>"

definition HTTPAdapter_Start :: "HTTPAdapter \<Rightarrow> error option \<times> HTTPAdapter" where
  "HTTPAdapter_Start h =
     (if http_running h then (Some (TransportAlreadyRunning ''HTTP''), h)
      else
        let addr = (http_Host (http_config h), http_Port (http_config h)) in
        (None, h\<lparr>http_httpServer := Some \<lparr>srv_Addr = addr\<rparr>,
                  http_goroutines := http_goroutines h + 1,
                  http_running := True\<rparr>))"

text \<open>
  The goroutine of \<^verbatim>\<open>Start\<close> once \<^verbatim>\<open>ListenAndServe\<close> has returned \<open>err\<close>: the error is
  logged unless it is \<^verbatim>\<open>ErrServerClosed\<close>, then the deferred function clears \<open>running\<close>.
\<close>

definition HTTPAdapter_serve_returned ::
  "serve_error \<Rightarrow> HTTPAdapter \<Rightarrow> string list \<times> HTTPAdapter" where
  "HTTPAdapter_serve_returned err h =
     ((case err of ErrServerClosed \<Rightarrow> [] | ServeError msg \<Rightarrow> [''HTTP server error: '' @ msg]),
      h\<lparr>http_running := False, http_goroutines := http_goroutines h - 1\<rparr>)"

text \<open>
  The goroutine on a network: \<^verbatim>\<open>ListenAndServe\<close> returns the bind error at once when
  the address of the server cannot be bound, and keeps serving otherwise (\<open>None\<close>: it has
  not returned).
\<close>

definition HTTPAdapter_goroutine ::
  "network \<Rightarrow> HTTPAdapter \<Rightarrow> (string list \<times> HTTPAdapter) option" where
  "HTTPAdapter_goroutine net h =
     (case http_httpServer h of
        None \<Rightarrow> None
      | Some srv \<Rightarrow>
          (case net (srv_Addr srv) of
             None \<Rightarrow> None
           | Some msg \<Rightarrow> Some (HTTPAdapter_serve_returned (ServeError msg) h)))"

text \<open>\<open>shutdown\<close> is what \<^verbatim>\<open>httpServer.Shutdown\<close> returns within its ten seconds.\<close>

definition HTTPAdapter_Stop :: "string option \<Rightarrow> HTTPAdapter \<Rightarrow> error option \<times> HTTPAdapter" where
  "HTTPAdapter_Stop shutdown h =
     (if \<not> http_running h \<or> http_httpServer h = None then (None, h)
      else (map_option ServerShutdownFailed shutdown, h\<lparr>http_running := False\<rparr>))"

definition HTTPAdapter_IsHealthy :: "HTTPAdapter \<Rightarrow> bool" where
  "HTTPAdapter_IsHealthy h \<longleftrightarrow> http_running h \<and> http_httpServer h \<noteq> None"

record SSEConfig =
  sse_Host :: string
  sse_Port :: int
  sse_CORSEnabled :: bool

record SSEAdapter =
  sse_httpServer :: "http_Server option"
  sse_config :: SSEConfig
  sse_running :: bool
  sse_goroutines :: nat

definition NewSSEAdapter :: "SSEConfig \<Rightarrow> SSEAdapter" where
  "NewSSEAdapter config =
     \<lparr>sse_httpServer = None, sse_config = config, sse_running = False, sse_goroutines = 0\<rparr>"

definition SSEAdapter_Start :: "SSEAdapter \<Rightarrow> error option \<times> SSEAdapter" where
  "SSEAdapter_Start s =
     (if sse_running s then (Some (TransportAlreadyRunning ''SSE''), s)
      else
        let addr = (sse_Host (sse_config s), sse_Port (sse_config s)) in
        (None, s\<lparr>sse_httpServer := Some \<lparr>srv_Addr = addr\<rparr>,
                  sse_goroutines := sse_goroutines s + 1,
                  sse_running := True\<rparr>))"

definition SSEAdapter_serve_returned ::
  "serve_error \<Rightarrow> SSEAdapter \<Rightarrow> string list \<times> SSEAdapter" where
  "SSEAdapter_serve_returned err s =
     ((case err of ErrServerClosed \<Rightarrow> [] | ServeError msg \<Rightarrow> [''SSE server error: '' @ msg]),
      s\<lparr>sse_running := False, sse_goroutines := sse_goroutines s - 1\<rparr>)"

definition SSEAdapter_Stop :: "string option \<Rightarrow> SSEAdapter \<Rightarrow> error option \<times> SSEAdapter" where
  "SSEAdapter_Stop shutdown s =
     (if \<not> sse_running s \<or> sse_httpServer s = None then (None, s)
      else (map_option ServerShutdownFailed shutdown, s\<lparr>sse_running := False\<rparr>))"

definition SSEAdapter_IsHealthy :: "SSEAdapter \<Rightarrow> bool" where
  "SSEAdapter_IsHealthy s \<longleftrightarrow> sse_running s \<and> sse_httpServer s \<noteq> None"

text \<open>
  The STDIO adapter: \<open>stdio_ctx\<close> is \<open>None\<close> for a nil context and otherwise tells whether
  \<^verbatim>\<open>ctx.Err()\<close> is non-nil; \<open>stdio_cancel\<close> tells whether the cancel function is set.
  \<^verbatim>\<open>Start\<close> derives the context from its argument, of which \<open>parent_done\<close> tells whether
  it is already cancelled.
\<close>

record STDIOAdapter =
  stdio_running :: bool
  stdio_ctx :: "bool option"
  stdio_cancel :: bool
  stdio_goroutines :: nat

definition NewSTDIOAdapter :: STDIOAdapter where
  "NewSTDIOAdapter =
     \<lparr>stdio_running = False, stdio_ctx = None, stdio_cancel = False, stdio_goroutines = 0\<rparr>"

definition STDIOAdapter_Start :: "bool \<Rightarrow> STDIOAdapter \<Rightarrow> error option \<times> STDIOAdapter" where
  "STDIOAdapter_Start parent_done s =
     (if stdio_running s then (Some (TransportAlreadyRunning ''STDIO''), s)
      else (None, s\<lparr>stdio_ctx := Some parent_done, stdio_cancel := True, stdio_running := True,
                     stdio_goroutines := stdio_goroutines s + 1\<rparr>))"

definition STDIOAdapter_listen_returned :: "STDIOAdapter \<Rightarrow> STDIOAdapter" where
  "STDIOAdapter_listen_returned s =
     s\<lparr>stdio_running := False, stdio_goroutines := stdio_goroutines s - 1\<rparr>"

definition STDIOAdapter_Stop :: "STDIOAdapter \<Rightarrow> error option \<times> STDIOAdapter" where
  "STDIOAdapter_Stop s =
     (if \<not> stdio_running s then (None, s)
      else
        let s1 = (if stdio_cancel s then s\<lparr>stdio_ctx := map_option (\<lambda>done. True) (stdio_ctx s)\<rparr>
                  else s)
        in (None, s1\<lparr>stdio_running := False\<rparr>))"

definition STDIOAdapter_IsHealthy :: "STDIOAdapter \<Rightarrow> bool" where
  "STDIOAdapter_IsHealthy s \<longleftrightarrow> stdio_running s \<and> stdio_ctx s \<noteq> None \<and> stdio_ctx s = Some False"

text \<open>
  The interface \<^verbatim>\<open>TransportAdapter\<close> with its three implementations. \<^verbatim>\<open>Start\<close> takes the
  state of the caller's context, \<^verbatim>\<open>Stop\<close> what a graceful server shutdown would return.
\<close>

datatype TransportAdapter = STDIO STDIOAdapter | SSE SSEAdapter | HTTP HTTPAdapter

fun Start :: "bool \<Rightarrow> TransportAdapter \<Rightarrow> error option \<times> TransportAdapter" where
  "Start parent_done (STDIO s) = map_prod id STDIO (STDIOAdapter_Start parent_done s)"
| "Start parent_done (SSE s) = map_prod id SSE (SSEAdapter_Start s)"
| "Start parent_done (HTTP h) = map_prod id HTTP (HTTPAdapter_Start h)"

fun Stop :: "string option \<Rightarrow> TransportAdapter \<Rightarrow> error option \<times> TransportAdapter" where
  "Stop shutdown (STDIO s) = map_prod id STDIO (STDIOAdapter_Stop s)"
| "Stop shutdown (SSE s) = map_prod id SSE (SSEAdapter_Stop shutdown s)"
| "Stop shutdown (HTTP h) = map_prod id HTTP (HTTPAdapter_Stop shutdown h)"

fun Name :: "TransportAdapter \<Rightarrow> string" where
  "Name (STDIO s) = ''stdio''"
| "Name (SSE s) = ''sse''"
| "Name (HTTP h) = ''http''"

fun IsHealthy :: "TransportAdapter \<Rightarrow> bool" where
  "IsHealthy (STDIO s) = STDIOAdapter_IsHealthy s"
| "IsHealthy (SSE s) = SSEAdapter_IsHealthy s"
| "IsHealthy (HTTP h) = HTTPAdapter_IsHealthy h"

text \<open>The field \<open>running\<close> of an adapter.\<close>

fun running :: "TransportAdapter \<Rightarrow> bool" where
  "running (STDIO s) = stdio_running s"
| "running (SSE s) = sse_running s"
| "running (HTTP h) = http_running h"

text \<open>An HTTP adapter configured for a port that another process holds.\<close>

definition busy_config :: HTTPConfig where
  "busy_config = \<lparr>http_Host = ''localhost'', http_Port = 26842, http_Timeout = 30\<rparr>"

definition busy_network :: network where
  "busy_network addr =
     (if addr = (''localhost'', 26842) then Some ''bind: address already in use'' else None)"

section \<open>Metrics collector (pkg/mcp/server/metrics.go)\<close>

text \<open>
  \<^verbatim>\<open>time.Duration\<close> and the counters are \<^verbatim>\<open>int64\<close>: 64-bit words, read as two's
  complement. Go's \<^verbatim>\<open>/\<close> on them truncates toward zero. The fields for the system
  metrics, which \<^verbatim>\<open>RecordRequest\<close> does not touch, are left out.
\<close>

type_synonym int64 = "64 word"

definition int64_div :: "int64 \<Rightarrow> int64 \<Rightarrow> int64" where
  "int64_div a b = word_of_int (sint a sdiv sint b)"

record MetricsCollector =
  startTime :: int
  requestCount :: int64
  errorCount :: int64
  toolCallCount :: "string \<rightharpoonup> int64"
  avgResponseTime :: int64
  responseTimes :: "int64 list"
  maxResponseTime :: int64

definition NewMetricsCollector :: "int \<Rightarrow> MetricsCollector" where
  "NewMetricsCollector now =
     \<lparr>startTime = now, requestCount = 0, errorCount = 0, toolCallCount = Map.empty,
      avgResponseTime = 0, responseTimes = [], maxResponseTime = 0\<rparr>"

text \<open>
  \<^verbatim>\<open>RecordRequest\<close>; \<open>None\<close> is the run-time panic of an integer division by zero, which
  the last statement would raise on an empty slice.
\<close>

definition RecordRequest ::
  "int64 \<Rightarrow> string \<Rightarrow> bool \<Rightarrow> MetricsCollector \<Rightarrow> MetricsCollector option" where
  "RecordRequest duration toolName isError m =
     (let m1 = m\<lparr>requestCount := requestCount m + 1\<rparr>;
          m2 = (if isError then m1\<lparr>errorCount := errorCount m1 + 1\<rparr> else m1);
          m3 = (if toolName \<noteq> []
                then m2\<lparr>toolCallCount := (toolCallCount m2)
                         (toolName \<mapsto> (case toolCallCount m2 toolName of None \<Rightarrow> 0 | Some c \<Rightarrow> c) + 1)\<rparr>
                else m2);
          appended = responseTimes m3 @ [duration];
          m4 = m3\<lparr>responseTimes := (if length appended > 1000 then drop 1 appended else appended)\<rparr>;
          m5 = (if maxResponseTime m4 <s duration then m4\<lparr>maxResponseTime := duration\<rparr> else m4);
          total = fold (\<lambda>rt total. total + rt) (responseTimes m5) 0
      in if length (responseTimes m5) = 0 then None
         else Some (m5\<lparr>avgResponseTime := int64_div total (of_nat (length (responseTimes m5)))\<rparr>))"

text \<open>A sequence of calls, each with its duration, tool name and error flag.\<close>

fun RecordRequests ::
  "(int64 \<times> string \<times> bool) list \<Rightarrow> MetricsCollector \<Rightarrow> MetricsCollector option" where
  "RecordRequests [] m = Some m"
| "RecordRequests ((duration, toolName, isError) # calls) m =
     (case RecordRequest duration toolName isError m of
        None \<Rightarrow> None
      | Some m' \<Rightarrow> RecordRequests calls m')"

text \<open>
  \<open>avgResponseTime\<close> is the exact arithmetic mean of the retained durations: multiplied
  by their number it gives their sum.
\<close>

definition mean_exact :: "MetricsCollector \<Rightarrow> bool" where
  "mean_exact m \<longleftrightarrow>
     sint (avgResponseTime m) * int (length (responseTimes m)) = sum_list (map sint (responseTimes m))"

section \<open>Example values\<close>

text \<open>A plugin named \<open>echo\<close> whose hooks always succeed, its manifest and its adapter.\<close>

definition echo_plugin :: DynamicPlugin where
  "echo_plugin =
     \<lparr>dp_id = 7, dp_Name = ''echo'', dp_Version = ''1.0.0'', dp_Description = ''echoes its text'',
      dp_Initialize_result = (\<lambda>tr. None), dp_Shutdown_result = (\<lambda>tr. None)\<rparr>"

definition echo_manifest :: PluginMetadata where
  "echo_manifest =
     \<lparr>md_Name = ''echo'', md_Version = ''1.0.0'', md_Description = ''echoes its text'',
      md_Author = [], md_APIVersion = [], md_EntryPoint = ''main.so'', md_Dependencies = [],
      md_Permissions = [], md_ConfigSchema = []\<rparr>"

definition echo_adapter :: DynamicPluginAdapter where
  "echo_adapter = \<lparr>adapter_plugin = echo_plugin, adapter_metadata = echo_manifest\<rparr>"

definition echo_registry :: Registry where
  "echo_registry = (NewRegistry False)\<lparr>tools := [''echo'' \<mapsto> adapter_tool echo_adapter]\<rparr>"

text \<open>
  A runtime with one plugin directory \<open>plugins/<dirname>\<close> holding a manifest that
  decodes to \<open>manifest\<close> and one loadable unit, the file \<open>unit\<close>, exporting \<open>symb\<close> as
  \<^verbatim>\<open>Plugin\<close>; the base directory also holds a plain file.
\<close>

definition demo_runtime :: "string \<Rightarrow> PluginMetadata \<Rightarrow> string \<Rightarrow> symbol \<Rightarrow> runtime" where
  "demo_runtime dirname manifest unit symb =
     \<lparr>filepath_Join = (\<lambda>d f. d @ ''/'' @ f),
      os_MkdirAll = (\<lambda>d. None),
      os_ReadDir = (\<lambda>d. if d = ''plugins'' then Inr [(dirname, True), (''README.md'', False)]
                          else Inl ''no such directory''),
      os_Stat_IsNotExist = (\<lambda>p. p \<noteq> ''plugins/'' @ dirname @ ''/plugin.json''),
      os_ReadFile = (\<lambda>p. if p = ''plugins/'' @ dirname @ ''/plugin.json'' then Inr ''{}''
                           else Inl ''no such file''),
      json_Unmarshal = (\<lambda>data. Inr manifest),
      plugin_Open = (\<lambda>p. if p = ''plugins/'' @ dirname @ ''/'' @ unit then Inr [''Plugin'' \<mapsto> symb]
                           else Inl ''no such file'')\<rparr>"

text \<open>The unit of \<open>echo\<close> is \<open>echo.so\<close>, although its manifest names \<open>main.so\<close>.\<close>

definition echo_runtime :: runtime where
  "echo_runtime = demo_runtime ''echo'' echo_manifest ''echo.so'' (PluginPointer (Some echo_plugin))"

text \<open>The same plugin with its unit at the manifest's entry point, \<open>main.so\<close>.\<close>

definition entry_runtime :: runtime where
  "entry_runtime = demo_runtime ''echo'' echo_manifest ''main.so'' (PluginPointer (Some echo_plugin))"

text \<open>The manager after discovery, and after loading \<open>echo\<close>.\<close>

definition echo_discovered :: PluginManager where
  "echo_discovered =
     \<lparr>plugins = Map.empty, pluginPaths = [''echo'' \<mapsto> ''plugins/echo''],
      registry = Some (NewRegistry False), baseDir = ''plugins'',
      discovered = [''echo'' \<mapsto> echo_manifest], loaded = Map.empty\<rparr>"

definition echo_loaded :: PluginManager where
  "echo_loaded = echo_discovered\<lparr>registry := Some echo_registry, loaded := [''echo'' \<mapsto> echo_adapter]\<rparr>"

text \<open>A plugin named \<open>echo\<close> whose \<^verbatim>\<open>Shutdown\<close> always fails, and the manager holding it.\<close>

definition stuck_plugin :: DynamicPlugin where
  "stuck_plugin = echo_plugin\<lparr>dp_Shutdown_result := (\<lambda>tr. Some ''busy'')\<rparr>"

definition stuck_adapter :: DynamicPluginAdapter where
  "stuck_adapter = \<lparr>adapter_plugin = stuck_plugin, adapter_metadata = echo_manifest\<rparr>"

definition stuck_runtime :: runtime where
  "stuck_runtime = demo_runtime ''echo'' echo_manifest ''echo.so'' (PluginValue stuck_plugin)"

definition stuck_loaded :: PluginManager where
  "stuck_loaded =
     echo_discovered\<lparr>registry := Some ((NewRegistry False)\<lparr>tools := [''echo'' \<mapsto> adapter_tool stuck_adapter]\<rparr>),
                     loaded := [''echo'' \<mapsto> stuck_adapter]\<rparr>"

text \<open>The manager after discovery when the registry already holds a tool named \<open>echo\<close>.\<close>

definition echo_taken :: PluginManager where
  "echo_taken = echo_discovered\<lparr>registry := Some echo_registry\<rparr>"

section \<open>Properties of the registry\<close>

lemma echo_tool_Name: "tool_Name (adapter_tool echo_adapter) = ''echo''"
  by (simp add: adapter_tool_def echo_adapter_def echo_plugin_def)

lemma adapter_tool_Initialize: "tool_Initialize (adapter_tool dpa) tr = (None, tr)"
  by (simp add: adapter_tool_def DynamicPluginAdapter_Initialize_def)

lemma RegisterTool_echo_fresh:
  "RegisterTool (Some (adapter_tool echo_adapter)) (NewRegistry False) [] =
     (None, echo_registry, [])"
  by (simp add: RegisterTool_def echo_registry_def NewRegistry_def echo_tool_Name
      adapter_tool_Initialize)

text \<open>
  Claim C1. \<^verbatim>\<open>RegisterTool\<close> fails on a nil tool and on an empty name, fails with the
  duplicate-name error when the name is already registered (in all three cases without
  calling \<^verbatim>\<open>Initialize\<close>), otherwise calls the tool's \<^verbatim>\<open>Initialize\<close> once and inserts
  the tool only if that succeeded. Every failure leaves the registry as it was, and no
  call replaces the entry of a name that was already registered: the catalogue maps a
  name to at most one entry, and that entry stays the first one registered.
\<close>

theorem RegisterTool_contract:
  assumes "RegisterTool tool r tr = (res, r', tr')"
  shows "(tool = None \<longrightarrow> res = Some ToolNil \<and> tr' = tr) \<and>
     (\<forall>t. tool = Some t \<and> tool_Name t = [] \<longrightarrow> res = Some ToolNameEmpty \<and> tr' = tr) \<and>
     (\<forall>t. tool = Some t \<and> tool_Name t \<noteq> [] \<and> tools r (tool_Name t) \<noteq> None \<longrightarrow>
          res = Some (ToolAlreadyRegistered (tool_Name t)) \<and> tr' = tr) \<and>
     (\<forall>t. tool = Some t \<and> tool_Name t \<noteq> [] \<and> tools r (tool_Name t) = None \<longrightarrow>
          tr' = snd (tool_Initialize t tr) \<and>
          (case fst (tool_Initialize t tr) of
             Some err \<Rightarrow> res = Some (ToolInitializeFailed (tool_Name t) err)
           | None \<Rightarrow> res = None \<and> r' = r\<lparr>tools := (tools r)(tool_Name t \<mapsto> t)\<rparr>)) \<and>
     (res \<noteq> None \<longrightarrow> r' = r) \<and>
     (\<forall>n. tools r n \<noteq> None \<longrightarrow> tools r' n = tools r n)"
  using assms
  by (auto simp: RegisterTool_def Let_def split: option.splits if_splits prod.splits)

theorem RegisterTool_contract_witness:
  "RegisterTool (Some (adapter_tool echo_adapter)) (NewRegistry False) [] =
     (None, echo_registry, []) \<and>
   RegisterTool (Some (adapter_tool echo_adapter)) echo_registry [] =
     (Some (ToolAlreadyRegistered ''echo''), echo_registry, []) \<and>
   tools echo_registry ''echo'' = Some (adapter_tool echo_adapter)"
proof -
  obtain res r' tr' where again:
    "RegisterTool (Some (adapter_tool echo_adapter)) echo_registry [] = (res, r', tr')"
    by (cases "RegisterTool (Some (adapter_tool echo_adapter)) echo_registry []") auto
  have present: "tools echo_registry ''echo'' = Some (adapter_tool echo_adapter)"
    by (simp add: echo_registry_def)
  from RegisterTool_contract [OF again] echo_tool_Name present
  have "res = Some (ToolAlreadyRegistered ''echo'') \<and> tr' = [] \<and> r' = echo_registry"
    by simp
  with again RegisterTool_echo_fresh present show ?thesis by simp
qed

text \<open>
  Claim C8. With discovery disabled, \<^verbatim>\<open>StartPeriodicDiscovery\<close> returns success and
  leaves the registry as it was (no loop launched, running flag untouched); so whenever
  it returns the "already running" error, discovery is enabled.
\<close>

theorem StartPeriodicDiscovery_disabled:
  "(\<not> discoveryEnabled r \<longrightarrow> StartPeriodicDiscovery r = (None, r)) \<and>
   (fst (StartPeriodicDiscovery r) = Some DiscoveryAlreadyRunning \<longrightarrow> discoveryEnabled r)"
  by (simp add: StartPeriodicDiscovery_def)

theorem StartPeriodicDiscovery_disabled_witness:
  "\<not> discoveryEnabled (NewRegistry False) \<and>
   StartPeriodicDiscovery (NewRegistry False) = (None, NewRegistry False) \<and>
   discoveryLoops (snd (StartPeriodicDiscovery (NewRegistry False))) = 0 \<and>
   \<not> discoveryRunning (snd (StartPeriodicDiscovery (NewRegistry False))) \<and>
   fst (StartPeriodicDiscovery (snd (StartPeriodicDiscovery (NewRegistry True)))) =
     Some DiscoveryAlreadyRunning \<and>
   discoveryEnabled (snd (StartPeriodicDiscovery (NewRegistry True)))"
proof -
  have off: "\<not> discoveryEnabled (NewRegistry False)"
    by (simp add: NewRegistry_def)
  have twice: "fst (StartPeriodicDiscovery (snd (StartPeriodicDiscovery (NewRegistry True)))) =
     Some DiscoveryAlreadyRunning"
    by (simp add: StartPeriodicDiscovery_def NewRegistry_def)
  from StartPeriodicDiscovery_disabled [of "NewRegistry False"] off
  have "StartPeriodicDiscovery (NewRegistry False) = (None, NewRegistry False)" by simp
  moreover
  from StartPeriodicDiscovery_disabled [of "snd (StartPeriodicDiscovery (NewRegistry True))"] twice
  have "discoveryEnabled (snd (StartPeriodicDiscovery (NewRegistry True)))" by simp
  ultimately show ?thesis using off twice by (simp add: NewRegistry_def)
qed

section \<open>Properties of the plugin manager\<close>

lemma echo_manifest_valid:
  "md_Name echo_manifest = ''echo''" "md_Version echo_manifest \<noteq> []" "md_EntryPoint echo_manifest = ''main.so''"
  by (simp_all add: echo_manifest_def)

lemma demo_runtime_simps:
  "filepath_Join (demo_runtime dn m u s) d f = d @ ''/'' @ f"
  "os_MkdirAll (demo_runtime dn m u s) d = None"
  "os_ReadDir (demo_runtime dn m u s) ''plugins'' = Inr [(dn, True), (''README.md'', False)]"
  "os_Stat_IsNotExist (demo_runtime dn m u s) p = (p \<noteq> ''plugins/'' @ dn @ ''/plugin.json'')"
  "os_ReadFile (demo_runtime dn m u s) p =
     (if p = ''plugins/'' @ dn @ ''/plugin.json'' then Inr ''{}'' else Inl ''no such file'')"
  "json_Unmarshal (demo_runtime dn m u s) data = Inr m"
  "plugin_Open (demo_runtime dn m u s) p =
     (if p = ''plugins/'' @ dn @ ''/'' @ u then Inr [''Plugin'' \<mapsto> s] else Inl ''no such file'')"
  by (simp_all add: demo_runtime_def)

lemma echo_plugin_simps:
  "dp_id echo_plugin = 7" "dp_Name echo_plugin = ''echo''"
  "dp_Initialize_result echo_plugin tr = None" "dp_Shutdown_result echo_plugin tr = None"
  by (simp_all add: echo_plugin_def)

lemma stuck_plugin_simps:
  "dp_id stuck_plugin = 7" "dp_Name stuck_plugin = ''echo''"
  "dp_Initialize_result stuck_plugin tr = None" "dp_Shutdown_result stuck_plugin tr = Some ''busy''"
  by (simp_all add: stuck_plugin_def echo_plugin_def)

lemma echo_discovered_simps:
  "discovered echo_discovered ''echo'' = Some echo_manifest"
  "loaded echo_discovered ''echo'' = None"
  "pluginPaths echo_discovered ''echo'' = Some ''plugins/echo''"
  "registry echo_discovered = Some (NewRegistry False)"
  by (simp_all add: echo_discovered_def)

lemma DiscoverPlugins_echo:
  "DiscoverPlugins (demo_runtime ''echo'' echo_manifest u s) (NewPluginManager ''plugins'' (Some (NewRegistry False))) =
     (None, echo_discovered)"
  by (simp add: DiscoverPlugins_def discover_entry_def loadMetadata_def demo_runtime_simps
      NewPluginManager_def echo_discovered_def echo_manifest_valid Let_def)

lemma adapter_tool_Name: "tool_Name (adapter_tool dpa) = dp_Name (adapter_plugin dpa)"
  by (simp add: adapter_tool_def)

lemma RegisterTool_adapter:
  "RegisterTool (Some (adapter_tool dpa)) r tr =
     (if dp_Name (adapter_plugin dpa) = [] then (Some ToolNameEmpty, r, tr)
      else if tools r (dp_Name (adapter_plugin dpa)) \<noteq> None
        then (Some (ToolAlreadyRegistered (dp_Name (adapter_plugin dpa))), r, tr)
      else (None, r\<lparr>tools := (tools r)(dp_Name (adapter_plugin dpa) \<mapsto> adapter_tool dpa)\<rparr>, tr))"
  by (simp add: RegisterTool_def adapter_tool_Name adapter_tool_Initialize)

lemma LoadPlugin_resolved:
  assumes "discovered pm name = Some pluginInfo" "loaded pm name = None"
    "pluginPaths pm name = Some pluginDir"
    "plugin_Open rt (filepath_Join rt pluginDir (name @ ''.so'')) = Inr p"
    "p ''Plugin'' = Some symb" "assert_DynamicPlugin symb = Some (Some dp)"
  shows "LoadPlugin rt name pm tr =
     (case dp_Initialize_result dp tr of
        Some err \<Rightarrow> (Some (PluginInitializeFailed name err), pm, tr @ [InitializeCalled (dp_id dp)])
      | None \<Rightarrow>
          (case registry pm of
             None \<Rightarrow> (None, pm\<lparr>loaded := (loaded pm)(name \<mapsto> \<lparr>adapter_plugin = dp, adapter_metadata = pluginInfo\<rparr>)\<rparr>,
                       tr @ [InitializeCalled (dp_id dp)])
           | Some r \<Rightarrow>
               if dp_Name dp = [] then
                 (Some (PluginRegisterFailed name ToolNameEmpty), pm,
                  tr @ [InitializeCalled (dp_id dp), ShutdownCalled (dp_id dp)])
               else if tools r (dp_Name dp) \<noteq> None then
                 (Some (PluginRegisterFailed name (ToolAlreadyRegistered (dp_Name dp))), pm,
                  tr @ [InitializeCalled (dp_id dp), ShutdownCalled (dp_id dp)])
               else
                 (None,
                  pm\<lparr>registry := Some (r\<lparr>tools := (tools r)(dp_Name dp \<mapsto>
                          adapter_tool \<lparr>adapter_plugin = dp, adapter_metadata = pluginInfo\<rparr>)\<rparr>),
                     loaded := (loaded pm)(name \<mapsto> \<lparr>adapter_plugin = dp, adapter_metadata = pluginInfo\<rparr>)\<rparr>,
                  tr @ [InitializeCalled (dp_id dp)])))"
  using assms
  by (simp add: LoadPlugin_def DynamicPlugin_Initialize_def DynamicPlugin_Shutdown_def
      RegisterTool_adapter Let_def split: option.splits)

lemma LoadPlugin_success_trace:
  assumes "LoadPlugin rt name pm tr = (None, pm', tr')"
  shows "\<exists>dp. tr' = tr @ [InitializeCalled (dp_id dp)] \<and>
              map_option adapter_plugin (loaded pm' name) = Some dp"
  using assms
  by (auto simp: LoadPlugin_def DynamicPlugin_Initialize_def RegisterTool_adapter Let_def
      split: option.splits if_splits sum.splits)

lemma LoadPlugin_already_loaded:
  "discovered pm name = Some pluginInfo \<Longrightarrow> loaded pm name = Some dpa \<Longrightarrow>
   LoadPlugin rt name pm tr = (Some (PluginAlreadyLoaded name), pm, tr)"
  by (simp add: LoadPlugin_def)

lemma ReloadPlugin_plugins_empty:
  "plugins pm name = None \<Longrightarrow> ReloadPlugin rt name pm tr = LoadPlugin rt name pm tr"
  by (simp add: ReloadPlugin_def)

lemma LoadPlugin_echo:
  "LoadPlugin echo_runtime ''echo'' echo_discovered [] = (None, echo_loaded, [InitializeCalled 7])"
proof -
  have "LoadPlugin echo_runtime ''echo'' echo_discovered [] = (None, echo_loaded, [InitializeCalled 7])"
    by (subst LoadPlugin_resolved [where pluginInfo = echo_manifest and pluginDir = "''plugins/echo''"
          and p = "[''Plugin'' \<mapsto> PluginPointer (Some echo_plugin)]"
          and symb = "PluginPointer (Some echo_plugin)" and dp = echo_plugin])
       (simp_all add: echo_discovered_def echo_runtime_def demo_runtime_simps echo_loaded_def
          echo_plugin_def echo_registry_def NewRegistry_def echo_adapter_def)
  then show ?thesis .
qed

lemma echo_resolves:
  "discovered echo_discovered ''echo'' = Some echo_manifest \<and> loaded echo_discovered ''echo'' = None \<and>
   pluginPaths echo_discovered ''echo'' = Some ''plugins/echo'' \<and>
   plugin_Open echo_runtime (filepath_Join echo_runtime ''plugins/echo'' (''echo'' @ ''.so'')) =
     Inr [''Plugin'' \<mapsto> PluginPointer (Some echo_plugin)] \<and>
   [''Plugin'' \<mapsto> PluginPointer (Some echo_plugin)] ''Plugin'' = Some (PluginPointer (Some echo_plugin)) \<and>
   assert_DynamicPlugin (PluginPointer (Some echo_plugin)) = Some (Some echo_plugin)"
  by (simp add: echo_discovered_simps echo_runtime_def demo_runtime_simps)

lemma LoadPlugin_stuck:
  "LoadPlugin stuck_runtime ''echo'' echo_discovered [] = (None, stuck_loaded, [InitializeCalled 7])"
  by (subst LoadPlugin_resolved [where pluginInfo = echo_manifest and pluginDir = "''plugins/echo''"
          and p = "[''Plugin'' \<mapsto> PluginValue stuck_plugin]"
          and symb = "PluginValue stuck_plugin" and dp = stuck_plugin])
     (simp_all add: echo_discovered_def stuck_runtime_def demo_runtime_simps stuck_loaded_def
          stuck_plugin_simps NewRegistry_def stuck_adapter_def)

lemma UnloadPlugin_stuck:
  "UnloadPlugin ''echo'' stuck_loaded [InitializeCalled 7] =
     (Some (PluginShutdownFailed ''echo'' ''busy''),
      stuck_loaded\<lparr>registry := Some (NewRegistry False)\<rparr>,
      [InitializeCalled 7, ShutdownCalled 7, ShutdownCalled 7])"
  by (simp add: UnloadPlugin_def UnregisterTool_def stuck_loaded_def adapter_tool_def
      DynamicPluginAdapter_Cleanup_def DynamicPlugin_Shutdown_def stuck_adapter_def stuck_plugin_simps
      NewRegistry_def)

lemma UnloadPlugin_echo:
  "UnloadPlugin ''echo'' echo_loaded [InitializeCalled 7] =
     (None, echo_discovered, [InitializeCalled 7, ShutdownCalled 7, ShutdownCalled 7])"
  by (simp add: UnloadPlugin_def UnregisterTool_def echo_loaded_def echo_registry_def adapter_tool_def
      DynamicPluginAdapter_Cleanup_def DynamicPlugin_Shutdown_def echo_adapter_def echo_plugin_simps
      NewRegistry_def echo_discovered_def)

text \<open>
  Claim C2 at a concrete input: after discovering and loading \<open>echo\<close>, \<^verbatim>\<open>ReloadPlugin\<close>
  reads the map \<open>plugins\<close>, which no operation fills, skips the unload, and returns the
  "already loaded" error of \<^verbatim>\<open>LoadPlugin\<close>; no hook is called and the manager is
  unchanged.
\<close>

theorem ReloadPlugin_loaded_echo:
  "DiscoverPlugins echo_runtime (NewPluginManager ''plugins'' (Some (NewRegistry False))) =
     (None, echo_discovered) \<and>
   LoadPlugin echo_runtime ''echo'' echo_discovered [] = (None, echo_loaded, [InitializeCalled 7]) \<and>
   ReloadPlugin echo_runtime ''echo'' echo_loaded [InitializeCalled 7] =
     (Some (PluginAlreadyLoaded ''echo''), echo_loaded, [InitializeCalled 7])"
proof -
  have "plugins echo_loaded ''echo'' = None" "discovered echo_loaded ''echo'' = Some echo_manifest"
    "loaded echo_loaded ''echo'' = Some echo_adapter"
    by (simp_all add: echo_loaded_def echo_discovered_def)
  then have "ReloadPlugin echo_runtime ''echo'' echo_loaded [InitializeCalled 7] =
     (Some (PluginAlreadyLoaded ''echo''), echo_loaded, [InitializeCalled 7])"
    by (simp add: ReloadPlugin_plugins_empty LoadPlugin_already_loaded)
  moreover have "DiscoverPlugins echo_runtime (NewPluginManager ''plugins'' (Some (NewRegistry False))) =
     (None, echo_discovered)"
    unfolding echo_runtime_def by (rule DiscoverPlugins_echo)
  ultimately show ?thesis
    by (simp add: LoadPlugin_echo)
qed

text \<open>
  Claim C3 as stated fails: a loaded plugin whose \<^verbatim>\<open>Shutdown\<close> fails is still in the
  loaded set after \<^verbatim>\<open>UnloadPlugin\<close> has returned the shutdown error.
\<close>

theorem UnloadPlugin_shutdown_failure_counterexample:
  "LoadPlugin stuck_runtime ''echo'' echo_discovered [] = (None, stuck_loaded, [InitializeCalled 7]) \<and>
   fst (UnloadPlugin ''echo'' stuck_loaded [InitializeCalled 7]) =
     Some (PluginShutdownFailed ''echo'' ''busy'') \<and>
   loaded (fst (snd (UnloadPlugin ''echo'' stuck_loaded [InitializeCalled 7]))) ''echo'' =
     Some stuck_adapter"
proof -
  have "loaded (stuck_loaded\<lparr>registry := Some (NewRegistry False)\<rparr>) ''echo'' = Some stuck_adapter"
    by (simp add: stuck_loaded_def)
  then show ?thesis
    by (simp add: LoadPlugin_stuck UnloadPlugin_stuck)
qed

text \<open>
  Claim C3, amended. For a loaded name, \<^verbatim>\<open>UnloadPlugin\<close> ends with a call of the plugin's
  \<^verbatim>\<open>Shutdown\<close> and returns that call's error (wrapped) or success. On success the name
  is removed from the loaded set; on failure the loaded set is unchanged, so the name stays
  loaded. Either way the registry no longer has an entry under the name.
\<close>

theorem UnloadPlugin_removes_on_success:
  assumes "loaded pm name = Some lp" and "UnloadPlugin name pm tr = (res, pm', tr')"
  shows "tr' \<noteq> [] \<and> last tr' = ShutdownCalled (dp_id (adapter_plugin lp)) \<and>
     res = map_option (PluginShutdownFailed name) (dp_Shutdown_result (adapter_plugin lp) (butlast tr')) \<and>
     (res = None \<longrightarrow> loaded pm' = (loaded pm)(name := None)) \<and>
     (res \<noteq> None \<longrightarrow> loaded pm' = loaded pm) \<and>
     (\<forall>r'. registry pm' = Some r' \<longrightarrow> tools r' name = None)"
  using assms
  by (auto simp: UnloadPlugin_def UnregisterTool_def DynamicPlugin_Shutdown_def Let_def
      split: option.splits prod.splits)

theorem UnloadPlugin_removes_on_success_witness:
  "loaded stuck_loaded ''echo'' = Some stuck_adapter \<and>
   UnloadPlugin ''echo'' stuck_loaded [InitializeCalled 7] =
     (Some (PluginShutdownFailed ''echo'' ''busy''),
      stuck_loaded\<lparr>registry := Some (NewRegistry False)\<rparr>,
      [InitializeCalled 7, ShutdownCalled 7, ShutdownCalled 7]) \<and>
   loaded (stuck_loaded\<lparr>registry := Some (NewRegistry False)\<rparr>) = loaded stuck_loaded \<and>
   loaded echo_loaded ''echo'' = Some echo_adapter \<and>
   UnloadPlugin ''echo'' echo_loaded [InitializeCalled 7] =
     (None, echo_discovered, [InitializeCalled 7, ShutdownCalled 7, ShutdownCalled 7]) \<and>
   loaded echo_discovered = (loaded echo_loaded)(''echo'' := None)"
proof -
  have s: "loaded stuck_loaded ''echo'' = Some stuck_adapter"
    by (simp add: stuck_loaded_def)
  have e: "loaded echo_loaded ''echo'' = Some echo_adapter"
    by (simp add: echo_loaded_def)
  from UnloadPlugin_removes_on_success [OF s UnloadPlugin_stuck]
  have "loaded (stuck_loaded\<lparr>registry := Some (NewRegistry False)\<rparr>) = loaded stuck_loaded"
    by simp
  moreover from UnloadPlugin_removes_on_success [OF e UnloadPlugin_echo]
  have "loaded echo_discovered = (loaded echo_loaded)(''echo'' := None)"
    by simp
  ultimately show ?thesis
    using s e UnloadPlugin_stuck UnloadPlugin_echo by simp
qed

text \<open>
  Claim C5. When \<^verbatim>\<open>LoadPlugin\<close> has resolved the plugin, its \<^verbatim>\<open>Initialize\<close> succeeded
  and \<^verbatim>\<open>RegisterTool\<close> then fails with any error, the manager calls the plugin's
  \<^verbatim>\<open>Shutdown\<close> once, after the \<^verbatim>\<open>Initialize\<close> call, returns the registration error
  wrapped in its own, and leaves the manager as it was: no loaded entry for the name.
\<close>

theorem LoadPlugin_register_failure:
  assumes "discovered pm name = Some pluginInfo" and "loaded pm name = None"
    and "pluginPaths pm name = Some pluginDir"
    and "plugin_Open rt (filepath_Join rt pluginDir (name @ ''.so'')) = Inr p"
    and "p ''Plugin'' = Some symb" and "assert_DynamicPlugin symb = Some (Some dp)"
    and "DynamicPlugin_Initialize dp tr = (None, tr1)"
    and "registry pm = Some r"
    and "RegisterTool (Some (adapter_tool \<lparr>adapter_plugin = dp, adapter_metadata = pluginInfo\<rparr>)) r tr1 =
           (Some err, r', tr2)"
  shows "LoadPlugin rt name pm tr =
           (Some (PluginRegisterFailed name err), pm, tr2 @ [ShutdownCalled (dp_id dp)]) \<and>
         tr2 = tr @ [InitializeCalled (dp_id dp)] \<and>
         loaded (fst (snd (LoadPlugin rt name pm tr))) name = None \<and>
         count_list (snd (snd (LoadPlugin rt name pm tr))) (ShutdownCalled (dp_id dp)) =
           count_list tr (ShutdownCalled (dp_id dp)) + 1"
proof -
  from assms(7) have init: "dp_Initialize_result dp tr = None"
    and tr1: "tr1 = tr @ [InitializeCalled (dp_id dp)]"
    by (auto simp: DynamicPlugin_Initialize_def)
  from assms(9) have same: "r' = r" "tr2 = tr1"
    by (auto simp: RegisterTool_adapter split: if_splits)
  from assms(9) have err: "(dp_Name dp = [] \<and> err = ToolNameEmpty) \<or>
      (dp_Name dp \<noteq> [] \<and> tools r (dp_Name dp) \<noteq> None \<and> err = ToolAlreadyRegistered (dp_Name dp))"
    by (auto simp: RegisterTool_adapter split: if_splits)
  have res: "LoadPlugin rt name pm tr =
      (Some (PluginRegisterFailed name err), pm, tr2 @ [ShutdownCalled (dp_id dp)])"
    using err init assms(8) same tr1
    by (auto simp: LoadPlugin_resolved [OF assms(1-6)])
  show ?thesis
    using assms(2) same tr1 by (simp add: res)
qed

theorem LoadPlugin_register_failure_witness:
  "LoadPlugin echo_runtime ''echo'' echo_taken [] =
     (Some (PluginRegisterFailed ''echo'' (ToolAlreadyRegistered ''echo'')), echo_taken,
      [InitializeCalled 7, ShutdownCalled 7]) \<and>
   loaded (fst (snd (LoadPlugin echo_runtime ''echo'' echo_taken []))) ''echo'' = None"
proof -
  have init: "DynamicPlugin_Initialize echo_plugin [] = (None, [InitializeCalled 7])"
    by (simp add: DynamicPlugin_Initialize_def echo_plugin_simps)
  have reg: "RegisterTool (Some (adapter_tool \<lparr>adapter_plugin = echo_plugin, adapter_metadata = echo_manifest\<rparr>))
       echo_registry [InitializeCalled 7] =
     (Some (ToolAlreadyRegistered ''echo''), echo_registry, [InitializeCalled 7])"
    by (simp add: RegisterTool_adapter echo_plugin_simps echo_registry_def)
  have "LoadPlugin echo_runtime ''echo'' echo_taken [] =
           (Some (PluginRegisterFailed ''echo'' (ToolAlreadyRegistered ''echo'')), echo_taken,
            [InitializeCalled 7] @ [ShutdownCalled (dp_id echo_plugin)]) \<and>
         [InitializeCalled 7] = [] @ [InitializeCalled (dp_id echo_plugin)] \<and>
         loaded (fst (snd (LoadPlugin echo_runtime ''echo'' echo_taken []))) ''echo'' = None \<and>
         count_list (snd (snd (LoadPlugin echo_runtime ''echo'' echo_taken []))) (ShutdownCalled (dp_id echo_plugin)) =
           count_list [] (ShutdownCalled (dp_id echo_plugin)) + 1"
    by (rule LoadPlugin_register_failure [where pluginInfo = echo_manifest
          and pluginDir = "''plugins/echo''" and p = "[''Plugin'' \<mapsto> PluginPointer (Some echo_plugin)]"
          and symb = "PluginPointer (Some echo_plugin)" and r = echo_registry and r' = echo_registry,
          OF _ _ _ _ _ _ init _ reg])
       (simp_all add: echo_taken_def echo_discovered_simps echo_runtime_def demo_runtime_simps)
  then show ?thesis by (simp add: echo_plugin_simps echo_taken_def echo_discovered_def)
qed

text \<open>
  Claim C6 as stated fails: the plugin \<open>echo\<close> is discovered and not loaded, its manifest
  names the entry point \<open>main.so\<close>, a well-formed unit is at that path in its directory,
  and \<^verbatim>\<open>LoadPlugin\<close> fails to open \<open>plugins/echo/echo.so\<close>.
\<close>

theorem LoadPlugin_entry_point_counterexample:
  "DiscoverPlugins entry_runtime (NewPluginManager ''plugins'' (Some (NewRegistry False))) =
     (None, echo_discovered) \<and>
   md_EntryPoint echo_manifest = ''main.so'' \<and>
   plugin_Open entry_runtime (filepath_Join entry_runtime ''plugins/echo'' (md_EntryPoint echo_manifest)) =
     Inr [''Plugin'' \<mapsto> PluginPointer (Some echo_plugin)] \<and>
   LoadPlugin entry_runtime ''echo'' echo_discovered [] =
     (Some (PluginOpenFailed ''echo'' ''no such file''), echo_discovered, [])"
proof -
  have "DiscoverPlugins entry_runtime (NewPluginManager ''plugins'' (Some (NewRegistry False))) =
     (None, echo_discovered)"
    unfolding entry_runtime_def by (rule DiscoverPlugins_echo)
  moreover have "LoadPlugin entry_runtime ''echo'' echo_discovered [] =
     (Some (PluginOpenFailed ''echo'' ''no such file''), echo_discovered, [])"
    by (simp add: LoadPlugin_def echo_discovered_simps entry_runtime_def demo_runtime_simps)
  ultimately show ?thesis
    by (simp add: echo_manifest_valid entry_runtime_def demo_runtime_simps)
qed

text \<open>
  Claim C6, amended. For a discovered, not yet loaded name with a recorded directory,
  \<^verbatim>\<open>LoadPlugin\<close> opens the file \<open>name.so\<close> of that directory: it fails with the open
  error when that fails, with a lookup error when the unit has no symbol \<^verbatim>\<open>Plugin\<close>,
  with the type-mismatch error when the symbol is of another type (or a nil pointer), and
  goes on to call \<^verbatim>\<open>Initialize\<close> of the plugin when the symbol is a pointer to a plugin
  value or a plugin value. The manifest's entry point has no influence on the outcome.
\<close>

theorem LoadPlugin_opens_name_so:
  assumes "discovered pm name = Some pluginInfo" and "loaded pm name = None"
    and "pluginPaths pm name = Some pluginDir"
  shows
   "(\<forall>err. plugin_Open rt (filepath_Join rt pluginDir (name @ ''.so'')) = Inl err \<longrightarrow>
        LoadPlugin rt name pm tr = (Some (PluginOpenFailed name err), pm, tr)) \<and>
    (\<forall>p. plugin_Open rt (filepath_Join rt pluginDir (name @ ''.so'')) = Inr p \<longrightarrow>
       (p ''Plugin'' = None \<longrightarrow>
          LoadPlugin rt name pm tr = (Some (PluginSymbolNotFound name ''Plugin''), pm, tr)) \<and>
       (\<forall>ty. p ''Plugin'' = Some (OtherSymbol ty) \<longrightarrow>
          LoadPlugin rt name pm tr = (Some (NotDynamicPlugin name (OtherSymbol ty)), pm, tr)) \<and>
       (p ''Plugin'' = Some NilPluginPointer \<longrightarrow>
          LoadPlugin rt name pm tr = (Some (NotDynamicPlugin name NilPluginPointer), pm, tr)) \<and>
       (\<forall>dp. p ''Plugin'' = Some (PluginPointer (Some dp)) \<or> p ''Plugin'' = Some (PluginValue dp) \<longrightarrow>
          (\<exists>rest. snd (snd (LoadPlugin rt name pm tr)) = tr @ InitializeCalled (dp_id dp) # rest) \<and>
          (\<forall>s. fst (LoadPlugin rt name pm tr) \<noteq> Some (NotDynamicPlugin name s)))) \<and>
    (\<forall>e. fst (LoadPlugin rt name
               (pm\<lparr>discovered := (discovered pm)(name \<mapsto> pluginInfo\<lparr>md_EntryPoint := e\<rparr>)\<rparr>) tr) =
          fst (LoadPlugin rt name pm tr))"
proof -
  have open_fail: "LoadPlugin rt name pm tr = (Some (PluginOpenFailed name err), pm, tr)"
    if "plugin_Open rt (filepath_Join rt pluginDir (name @ ''.so'')) = Inl err" for err
    using assms that by (simp add: LoadPlugin_def)
  have no_symbol: "LoadPlugin rt name pm tr = (Some (PluginSymbolNotFound name ''Plugin''), pm, tr)"
    if "plugin_Open rt (filepath_Join rt pluginDir (name @ ''.so'')) = Inr p" "p ''Plugin'' = None" for p
    using assms that by (simp add: LoadPlugin_def)
  have other: "LoadPlugin rt name pm tr = (Some (NotDynamicPlugin name symb), pm, tr)"
    if "plugin_Open rt (filepath_Join rt pluginDir (name @ ''.so'')) = Inr p" "p ''Plugin'' = Some symb"
      "assert_DynamicPlugin symb = None" for p symb
    using assms that by (simp add: LoadPlugin_def)
  have accepted: "(\<exists>rest. snd (snd (LoadPlugin rt name pm tr)) = tr @ InitializeCalled (dp_id dp) # rest) \<and>
          (\<forall>s. fst (LoadPlugin rt name pm tr) \<noteq> Some (NotDynamicPlugin name s))"
    if "plugin_Open rt (filepath_Join rt pluginDir (name @ ''.so'')) = Inr p" "p ''Plugin'' = Some symb"
      "assert_DynamicPlugin symb = Some (Some dp)" for p symb dp
    by (simp add: LoadPlugin_resolved [OF assms that] split: option.splits)
  have entry: "fst (LoadPlugin rt name
               (pm\<lparr>discovered := (discovered pm)(name \<mapsto> pluginInfo\<lparr>md_EntryPoint := e\<rparr>)\<rparr>) tr) =
          fst (LoadPlugin rt name pm tr)" for e
    using assms
    by (simp add: LoadPlugin_def DynamicPlugin_Initialize_def RegisterTool_adapter Let_def
        split: option.splits sum.splits)
  show ?thesis
    using open_fail no_symbol other [where symb = "OtherSymbol ty" for ty]
      other [where symb = NilPluginPointer] accepted [where symb = "PluginPointer (Some dp)" for dp]
      accepted [where symb = "PluginValue dp" for dp] entry
    by (intro conjI allI impI; (elim disjE)?; simp)
qed

theorem LoadPlugin_opens_name_so_witness:
  "discovered echo_discovered ''echo'' = Some echo_manifest \<and>
   loaded echo_discovered ''echo'' = None \<and>
   pluginPaths echo_discovered ''echo'' = Some ''plugins/echo'' \<and>
   LoadPlugin entry_runtime ''echo'' echo_discovered [] =
     (Some (PluginOpenFailed ''echo'' ''no such file''), echo_discovered, []) \<and>
   (\<exists>rest. snd (snd (LoadPlugin echo_runtime ''echo'' echo_discovered [])) = InitializeCalled 7 # rest) \<and>
   fst (LoadPlugin echo_runtime ''echo''
          (echo_discovered\<lparr>discovered := (discovered echo_discovered)
             (''echo'' \<mapsto> echo_manifest\<lparr>md_EntryPoint := ''echo.so''\<rparr>)\<rparr>) []) =
     fst (LoadPlugin echo_runtime ''echo'' echo_discovered [])"
proof -
  note hyps = echo_discovered_simps(1-3)
  have closed: "plugin_Open entry_runtime (filepath_Join entry_runtime ''plugins/echo'' (''echo'' @ ''.so'')) =
      Inl ''no such file''"
    by (simp add: entry_runtime_def demo_runtime_simps)
  have "open": "plugin_Open echo_runtime (filepath_Join echo_runtime ''plugins/echo'' (''echo'' @ ''.so'')) =
      Inr [''Plugin'' \<mapsto> PluginPointer (Some echo_plugin)]"
    by (simp add: echo_runtime_def demo_runtime_simps)
  from LoadPlugin_opens_name_so [OF hyps, of entry_runtime "[]"] closed
  have 1: "LoadPlugin entry_runtime ''echo'' echo_discovered [] =
     (Some (PluginOpenFailed ''echo'' ''no such file''), echo_discovered, [])"
    by blast
  from LoadPlugin_opens_name_so [OF hyps, of echo_runtime "[]"] "open"
  have 2: "\<exists>rest. snd (snd (LoadPlugin echo_runtime ''echo'' echo_discovered [])) =
      [] @ InitializeCalled (dp_id echo_plugin) # rest"
    and 3: "fst (LoadPlugin echo_runtime ''echo''
          (echo_discovered\<lparr>discovered := (discovered echo_discovered)
             (''echo'' \<mapsto> echo_manifest\<lparr>md_EntryPoint := ''echo.so''\<rparr>)\<rparr>) []) =
     fst (LoadPlugin echo_runtime ''echo'' echo_discovered [])"
    by auto
  from 1 2 3 hyps show ?thesis by (simp add: echo_plugin_simps)
qed

text \<open>
  Claim C9. The adapter's \<^verbatim>\<open>Initialize\<close> returns success and calls no hook of the plugin
  (the trace is unchanged); its \<^verbatim>\<open>Cleanup\<close> is the plugin's \<^verbatim>\<open>Shutdown\<close>. A
  \<^verbatim>\<open>LoadPlugin\<close> that resolves a plugin calls that plugin's \<^verbatim>\<open>Initialize\<close> first and
  no \<^verbatim>\<open>Initialize\<close> after it; a \<^verbatim>\<open>LoadPlugin\<close> that succeeds adds exactly one event to
  the trace, the \<^verbatim>\<open>Initialize\<close> call of the plugin it has recorded as loaded.
\<close>

theorem adapter_Initialize_noop:
  "(\<forall>dpa tr. DynamicPluginAdapter_Initialize dpa tr = (None, tr)) \<and>
   (\<forall>dpa tr. DynamicPluginAdapter_Cleanup dpa tr = DynamicPlugin_Shutdown (adapter_plugin dpa) tr) \<and>
   (discovered pm name = Some pluginInfo \<and> loaded pm name = None \<and>
    pluginPaths pm name = Some pluginDir \<and>
    plugin_Open rt (filepath_Join rt pluginDir (name @ ''.so'')) = Inr p \<and>
    p ''Plugin'' = Some symb \<and> assert_DynamicPlugin symb = Some (Some dp) \<longrightarrow>
      (\<exists>rest. snd (snd (LoadPlugin rt name pm tr)) = tr @ InitializeCalled (dp_id dp) # rest \<and>
              (\<forall>i. InitializeCalled i \<notin> set rest))) \<and>
   (fst (LoadPlugin rt name pm tr) = None \<longrightarrow>
      (\<exists>dp. snd (snd (LoadPlugin rt name pm tr)) = tr @ [InitializeCalled (dp_id dp)] \<and>
            map_option adapter_plugin (loaded (fst (snd (LoadPlugin rt name pm tr))) name) = Some dp))"
proof -
  have a: "\<forall>dpa tr. DynamicPluginAdapter_Initialize dpa tr = (None, tr)"
    by (simp add: DynamicPluginAdapter_Initialize_def)
  have b: "\<forall>dpa tr. DynamicPluginAdapter_Cleanup dpa tr = DynamicPlugin_Shutdown (adapter_plugin dpa) tr"
    by (simp add: DynamicPluginAdapter_Cleanup_def)
  have c: "\<exists>rest. snd (snd (LoadPlugin rt name pm tr)) = tr @ InitializeCalled (dp_id dp) # rest \<and>
              (\<forall>i. InitializeCalled i \<notin> set rest)"
    if "discovered pm name = Some pluginInfo" "loaded pm name = None"
      "pluginPaths pm name = Some pluginDir"
      "plugin_Open rt (filepath_Join rt pluginDir (name @ ''.so'')) = Inr p"
      "p ''Plugin'' = Some symb" "assert_DynamicPlugin symb = Some (Some dp)"
    by (simp add: LoadPlugin_resolved [OF that] split: option.splits)
  have d: "\<exists>dp. snd (snd (LoadPlugin rt name pm tr)) = tr @ [InitializeCalled (dp_id dp)] \<and>
            map_option adapter_plugin (loaded (fst (snd (LoadPlugin rt name pm tr))) name) = Some dp"
    if ok: "fst (LoadPlugin rt name pm tr) = None"
  proof -
    obtain pm' tr' where "LoadPlugin rt name pm tr = (None, pm', tr')"
      using ok by (cases "LoadPlugin rt name pm tr") auto
    from LoadPlugin_success_trace [OF this] this show ?thesis by simp
  qed
  from a b c d show ?thesis by blast
qed

theorem adapter_Initialize_noop_witness:
  "LoadPlugin echo_runtime ''echo'' echo_discovered [] = (None, echo_loaded, [InitializeCalled 7]) \<and>
   count_list (snd (snd (LoadPlugin echo_runtime ''echo'' echo_discovered []))) (InitializeCalled 7) = 1 \<and>
   tool_Initialize (adapter_tool echo_adapter) [InitializeCalled 7] = (None, [InitializeCalled 7])"
proof -
  from adapter_Initialize_noop [of echo_discovered "''echo''" echo_manifest "''plugins/echo''"
      echo_runtime "[''Plugin'' \<mapsto> PluginPointer (Some echo_plugin)]"
      "PluginPointer (Some echo_plugin)" echo_plugin "[]"] echo_resolves
  obtain rest where
    rest: "snd (snd (LoadPlugin echo_runtime ''echo'' echo_discovered [])) =
       [] @ InitializeCalled (dp_id echo_plugin) # rest" "\<forall>i. InitializeCalled i \<notin> set rest"
    by blast
  from rest(2) have "count_list rest (InitializeCalled 7) = 0"
    by (simp add: count_list_0_iff)
  with rest(1) have "count_list (snd (snd (LoadPlugin echo_runtime ''echo'' echo_discovered [])))
      (InitializeCalled 7) = 1"
    by (simp add: echo_plugin_simps)
  then show ?thesis
    by (simp add: LoadPlugin_echo adapter_tool_Initialize)
qed

section \<open>Properties of the transport adapters\<close>


text \<open>
  Claim C7. For each of the three adapters, \<^verbatim>\<open>Start\<close> on an adapter whose \<open>running\<close> flag
  is set returns the adapter's "already running" error and leaves the adapter as it was;
  \<^verbatim>\<open>Stop\<close> on an adapter that is not running returns success, leaves the adapter as it
  was, and the adapter is not healthy. A newly constructed adapter is not running.
\<close>

theorem Start_running_Stop_stopped:
  "(running a \<longrightarrow>
      Start parent_done a =
        (Some (TransportAlreadyRunning
                 (case a of STDIO s \<Rightarrow> ''STDIO'' | SSE s \<Rightarrow> ''SSE'' | HTTP h \<Rightarrow> ''HTTP'')), a)) \<and>
   (\<not> running a \<longrightarrow> Stop shutdown a = (None, a) \<and> \<not> IsHealthy a) \<and>
   \<not> running (STDIO NewSTDIOAdapter) \<and> \<not> running (SSE (NewSSEAdapter sse_cfg)) \<and>
   \<not> running (HTTP (NewHTTPAdapter http_cfg))"
  by (cases a)
     (simp_all add: STDIOAdapter_Start_def SSEAdapter_Start_def HTTPAdapter_Start_def
        STDIOAdapter_Stop_def SSEAdapter_Stop_def HTTPAdapter_Stop_def
        STDIOAdapter_IsHealthy_def SSEAdapter_IsHealthy_def HTTPAdapter_IsHealthy_def
        NewSTDIOAdapter_def NewSSEAdapter_def NewHTTPAdapter_def)

theorem Start_running_Stop_stopped_witness:
  "Stop None (HTTP (NewHTTPAdapter busy_config)) = (None, HTTP (NewHTTPAdapter busy_config)) \<and>
   \<not> IsHealthy (HTTP (NewHTTPAdapter busy_config)) \<and>
   running (snd (Start False (HTTP (NewHTTPAdapter busy_config)))) \<and>
   Start False (snd (Start False (HTTP (NewHTTPAdapter busy_config)))) =
     (Some (TransportAlreadyRunning ''HTTP''), snd (Start False (HTTP (NewHTTPAdapter busy_config)))) \<and>
   Start False (snd (Start False (STDIO NewSTDIOAdapter))) =
     (Some (TransportAlreadyRunning ''STDIO''), snd (Start False (STDIO NewSTDIOAdapter)))"
proof -
  let ?h = "HTTP (NewHTTPAdapter busy_config)"
  have stopped: "\<not> running ?h" by (simp add: NewHTTPAdapter_def)
  have started: "running (snd (Start False ?h))"
    by (simp add: HTTPAdapter_Start_def NewHTTPAdapter_def)
  from Start_running_Stop_stopped [of ?h False None] stopped
  have 1: "Stop None ?h = (None, ?h) \<and> \<not> IsHealthy ?h" by blast
  have shape: "snd (Start False ?h) = HTTP (snd (HTTPAdapter_Start (NewHTTPAdapter busy_config)))"
    by simp
  from Start_running_Stop_stopped [of "snd (Start False ?h)" False None] started
  have 2: "Start False (snd (Start False ?h)) =
      (Some (TransportAlreadyRunning ''HTTP''), snd (Start False ?h))"
    unfolding shape by simp
  with 1 started show ?thesis
    by (simp add: STDIOAdapter_Start_def NewSTDIOAdapter_def)
qed

text \<open>
  Claim C4 as stated fails: on a network where the configured address cannot be bound,
  \<^verbatim>\<open>Start\<close> of a new HTTP adapter returns success, not the bind error, and the adapter is
  healthy when \<^verbatim>\<open>Start\<close> has returned.
\<close>

theorem HTTPAdapter_Start_bind_failure_counterexample:
  "busy_network (http_Host busy_config, http_Port busy_config) = Some ''bind: address already in use'' \<and>
   fst (HTTPAdapter_Start (NewHTTPAdapter busy_config)) = None \<and>
   HTTPAdapter_IsHealthy (snd (HTTPAdapter_Start (NewHTTPAdapter busy_config)))"
  by (simp add: busy_network_def busy_config_def HTTPAdapter_Start_def NewHTTPAdapter_def
      HTTPAdapter_IsHealthy_def)

text \<open>
  Claim C4, amended. When the address of a stopped HTTP adapter cannot be bound,
  \<^verbatim>\<open>Start\<close> returns success and the adapter is healthy on return. The goroutine it
  launched gets the bind error from \<^verbatim>\<open>ListenAndServe\<close>, logs it and clears \<open>running\<close>;
  from then on the adapter is not healthy, and \<^verbatim>\<open>Stop\<close> returns success and changes
  nothing.
\<close>

theorem HTTPAdapter_bind_failure:
  assumes "\<not> http_running h"
    and "net (http_Host (http_config h), http_Port (http_config h)) = Some msg"
    and "HTTPAdapter_Start h = (res, h1)"
  shows "res = None \<and> HTTPAdapter_IsHealthy h1 \<and>
     (\<exists>h2. HTTPAdapter_goroutine net h1 = Some ([''HTTP server error: '' @ msg], h2) \<and>
            \<not> HTTPAdapter_IsHealthy h2 \<and>
            HTTPAdapter_Stop shutdown h2 = (None, h2))"
  using assms
  by (auto simp: HTTPAdapter_Start_def HTTPAdapter_IsHealthy_def HTTPAdapter_goroutine_def
      HTTPAdapter_serve_returned_def HTTPAdapter_Stop_def Let_def)

theorem HTTPAdapter_bind_failure_witness:
  "\<not> http_running (NewHTTPAdapter busy_config) \<and>
   busy_network (http_Host busy_config, http_Port busy_config) = Some ''bind: address already in use'' \<and>
   fst (HTTPAdapter_Start (NewHTTPAdapter busy_config)) = None \<and>
   (\<exists>h2. HTTPAdapter_goroutine busy_network (snd (HTTPAdapter_Start (NewHTTPAdapter busy_config))) =
            Some ([''HTTP server error: bind: address already in use''], h2) \<and>
          \<not> HTTPAdapter_IsHealthy h2 \<and> HTTPAdapter_Stop None h2 = (None, h2))"
proof -
  have a: "\<not> http_running (NewHTTPAdapter busy_config)"
    by (simp add: NewHTTPAdapter_def)
  have b: "busy_network (http_Host (http_config (NewHTTPAdapter busy_config)),
        http_Port (http_config (NewHTTPAdapter busy_config))) = Some ''bind: address already in use''"
    by (simp add: busy_network_def busy_config_def NewHTTPAdapter_def)
  have c: "HTTPAdapter_Start (NewHTTPAdapter busy_config) =
      (fst (HTTPAdapter_Start (NewHTTPAdapter busy_config)),
       snd (HTTPAdapter_Start (NewHTTPAdapter busy_config)))"
    by simp
  from HTTPAdapter_bind_failure [where net = busy_network and shutdown = None, OF a b c] a b
  show ?thesis
    by (simp add: NewHTTPAdapter_def)
qed

section \<open>Properties of the metrics collector\<close>

lemma fold_add_sum_list: "fold (\<lambda>rt total. total + rt) xs (a :: int64) = a + sum_list xs"
  by (induction xs arbitrary: a) (simp_all add: add.assoc)

lemma RecordRequest_total: "RecordRequest d n e m \<noteq> None"
  by (auto simp: RecordRequest_def Let_def)

lemma RecordRequest_result:
  assumes "length (responseTimes m) \<le> 1000"
  shows "\<exists>m'. RecordRequest d n e m = Some m' \<and>
     responseTimes m' = drop (length (responseTimes m @ [d]) - 1000) (responseTimes m @ [d]) \<and>
     responseTimes m' \<noteq> [] \<and>
     avgResponseTime m' = int64_div (sum_list (responseTimes m')) (of_nat (length (responseTimes m')))"
proof (cases "length (responseTimes m) = 1000")
  case True
  then have "length (responseTimes m) - 999 = Suc 0" "responseTimes m \<noteq> []"
    by auto
  with True show ?thesis
    by (auto simp: RecordRequest_def Let_def fold_add_sum_list)
next
  case False
  with assms have "length (responseTimes m) - 999 = 0" "\<not> 999 < length (responseTimes m)"
    by auto
  then show ?thesis
    by (auto simp: RecordRequest_def Let_def fold_add_sum_list)
qed

lemma drop_window_append:
  fixes xs ys :: "'a list"
  shows "drop (length (drop (length xs - 1000) xs @ ys) - 1000) (drop (length xs - 1000) xs @ ys) =
         drop (length (xs @ ys) - 1000) (xs @ ys)"
proof -
  let ?k = "length xs - 1000"
  have "drop ?k xs @ ys = drop ?k (xs @ ys)" by simp
  moreover have "length (drop ?k (xs @ ys)) - 1000 + ?k = length (xs @ ys) - 1000"
    by (simp; arith)
  ultimately show ?thesis
    by (simp only: drop_drop)
qed

lemma RecordRequests_window_from:
  assumes "length (responseTimes m) \<le> 1000"
  shows "\<exists>m'. RecordRequests calls m = Some m' \<and>
     responseTimes m' = drop (length (responseTimes m @ map fst calls) - 1000) (responseTimes m @ map fst calls) \<and>
     (calls \<noteq> [] \<longrightarrow> responseTimes m' \<noteq> [] \<and>
        avgResponseTime m' = int64_div (sum_list (responseTimes m')) (of_nat (length (responseTimes m'))))"
  using assms
proof (induction calls arbitrary: m)
  case Nil
  then show ?case by simp
next
  case (Cons c calls)
  obtain d n e where c: "c = (d, n, e)" by (cases c)
  from RecordRequest_result [OF Cons.prems, of d n e]
  obtain m1 where m1: "RecordRequest d n e m = Some m1"
    "responseTimes m1 = drop (length (responseTimes m @ [d]) - 1000) (responseTimes m @ [d])"
    "responseTimes m1 \<noteq> []"
    "avgResponseTime m1 = int64_div (sum_list (responseTimes m1)) (of_nat (length (responseTimes m1)))"
    by blast
  have len: "length (responseTimes m1) \<le> 1000"
    by (simp add: m1(2))
  from Cons.IH [OF len]
  obtain m' where m': "RecordRequests calls m1 = Some m'"
    "responseTimes m' = drop (length (responseTimes m1 @ map fst calls) - 1000) (responseTimes m1 @ map fst calls)"
    "calls \<noteq> [] \<longrightarrow> responseTimes m' \<noteq> [] \<and>
        avgResponseTime m' = int64_div (sum_list (responseTimes m')) (of_nat (length (responseTimes m')))"
    by blast
  have win: "responseTimes m' =
      drop (length (responseTimes m @ map fst (c # calls)) - 1000) (responseTimes m @ map fst (c # calls))"
    unfolding m'(2) m1(2)
    using drop_window_append [of "responseTimes m @ [d]" "map fst calls"]
    by (simp add: c)
  have avg: "responseTimes m' \<noteq> [] \<and>
        avgResponseTime m' = int64_div (sum_list (responseTimes m')) (of_nat (length (responseTimes m')))"
  proof (cases "calls = []")
    case True
    with m' have "m' = m1" by simp
    with m1 show ?thesis by simp
  next
    case False
    with m'(3) show ?thesis by simp
  qed
  from m1(1) m'(1) win avg show ?case
    by (simp add: c)
qed

lemma signed_take_bit_sint64: "signed_take_bit 63 (sint (x :: int64)) = sint x"
  using sint_ge [of x] sint_lt [of x]
  by (simp add: signed_take_bit_int_eq_self_iff)

lemma sint_sum_list:
  "sint (sum_list xs :: int64) = signed_take_bit 63 (sum_list (map sint xs))"
proof (induction xs)
  case Nil
  then show ?case by simp
next
  case (Cons x xs)
  have "sint (x + sum_list xs) = signed_take_bit 63 (sint x + sint (sum_list xs))"
    by (simp add: sint_word_add)
  also have "\<dots> = signed_take_bit 63 (signed_take_bit 63 (sint x) +
      signed_take_bit 63 (sum_list (map sint xs)))"
    by (simp only: Cons.IH signed_take_bit_sint64)
  also have "\<dots> = signed_take_bit 63 (sint x + sum_list (map sint xs))"
    by (rule signed_take_bit_add)
  finally show ?case by simp
qed

lemma sint_length_le_1000:
  assumes "n \<le> 1000"
  shows "sint (of_nat n :: int64) = int n"
proof -
  have "sint (of_nat n :: int64) = signed_take_bit 63 (int n)"
    by (simp add: signed_of_nat)
  moreover have "int n < 2 ^ 63" using assms by simp
  ultimately show ?thesis
    by (simp add: signed_take_bit_int_eq_self)
qed

lemma sdiv_nonpos:
  fixes k l :: int
  assumes "k \<le> 0" and "0 \<le> l"
  shows "k sdiv l \<le> 0"
proof -
  have "0 \<le> sgn l * (\<bar>k\<bar> div \<bar>l\<bar>)"
    using assms by (intro mult_nonneg_nonneg) (auto simp: div_int_pos_iff sgn_if)
  moreover have "sgn k \<le> 0" using assms by (simp add: sgn_if)
  ultimately have "sgn k * (sgn l * (\<bar>k\<bar> div \<bar>l\<bar>)) \<le> 0"
    by (rule mult_nonneg_nonpos2)
  then show ?thesis by (simp add: signed_divide_int_def mult.assoc)
qed

lemma sdiv_in_int64:
  fixes k l :: int
  assumes "- (2 ^ 63) \<le> k" and "k < 2 ^ 63" and "0 \<le> l"
  shows "- (2 ^ 63) \<le> k sdiv l \<and> k sdiv l < 2 ^ 63"
proof (cases "0 \<le> k")
  case True
  with sdiv_int_range [of k l] assms show ?thesis by auto
next
  case False
  then have "k sdiv l \<le> 0" using assms(3) by (intro sdiv_nonpos) auto
  with sdiv_int_range [of k l] assms False show ?thesis by auto
qed

lemma int64_div_exact:
  assumes "- (2 ^ 63) \<le> sum_list (map sint xs)" and "sum_list (map sint xs) < 2 ^ 63"
    and "length xs \<le> 1000"
  shows "sint (int64_div (sum_list xs) (of_nat (length xs))) =
         sum_list (map sint xs) sdiv int (length xs)"
proof -
  let ?s = "sum_list (map sint xs)"
  have s: "sint (sum_list xs) = ?s"
    using assms(1,2) by (simp add: sint_sum_list signed_take_bit_int_eq_self)
  from sdiv_in_int64 [OF assms(1,2), of "int (length xs)"]
  have "signed_take_bit 63 (?s sdiv int (length xs)) = ?s sdiv int (length xs)"
    by (intro signed_take_bit_int_eq_self) auto
  then show ?thesis
    by (simp add: int64_div_def s sint_length_le_1000 [OF assms(3)] sint_sbintrunc')
qed

text \<open>
  Claim C10 as stated fails: after two requests of \<open>2 ^ 62\<close> nanoseconds each the sum
  wraps around and the average is negative; after requests of 1 and 2 nanoseconds the
  average is 1. In neither case is the average times the number of retained durations
  equal to their sum.
\<close>

theorem avgResponseTime_mean_counterexample:
  "map_option responseTimes
     (RecordRequests [(4611686018427387904, ''echo'', False), (4611686018427387904, ''echo'', False)]
        (NewMetricsCollector 0)) = Some [4611686018427387904, 4611686018427387904] \<and>
   map_option avgResponseTime
     (RecordRequests [(4611686018427387904, ''echo'', False), (4611686018427387904, ''echo'', False)]
        (NewMetricsCollector 0)) = Some (- 4611686018427387904) \<and>
   map_option mean_exact
     (RecordRequests [(4611686018427387904, ''echo'', False), (4611686018427387904, ''echo'', False)]
        (NewMetricsCollector 0)) = Some False \<and>
   map_option avgResponseTime
     (RecordRequests [(1, ''echo'', False), (2, ''echo'', False)] (NewMetricsCollector 0)) = Some 1 \<and>
   map_option mean_exact
     (RecordRequests [(1, ''echo'', False), (2, ''echo'', False)] (NewMetricsCollector 0)) = Some False"
  by (simp add: RecordRequest_def NewMetricsCollector_def Let_def int64_div_def mean_exact_def
      word_sless_alt)

text \<open>
  Claim C10, amended. After any sequence of \<^verbatim>\<open>RecordRequest\<close> calls on a new collector,
  the collector holds exactly the last 1000 durations recorded (all of them when there
  are fewer), and no call panics on a division by zero. After at least one call the slice
  is not empty and \<open>avgResponseTime\<close> is the 64-bit sum of the retained durations divided,
  with truncation toward zero, by their number; when the sum of the retained durations
  fits in 64 bits, it is the quotient of that sum by their number, truncated toward zero.
\<close>

theorem RecordRequests_window:
  "(\<exists>m. RecordRequests calls (NewMetricsCollector now) = Some m \<and>
      responseTimes m = drop (length calls - 1000) (map fst calls) \<and>
      length (responseTimes m) \<le> 1000 \<and>
      (calls \<noteq> [] \<longrightarrow>
         responseTimes m \<noteq> [] \<and>
         avgResponseTime m =
           int64_div (sum_list (responseTimes m)) (of_nat (length (responseTimes m))) \<and>
         (- (2 ^ 63) \<le> sum_list (map sint (responseTimes m)) \<and>
          sum_list (map sint (responseTimes m)) < 2 ^ 63 \<longrightarrow>
            sint (avgResponseTime m) =
              sum_list (map sint (responseTimes m)) sdiv int (length (responseTimes m))))) \<and>
   (\<forall>d n e m0. RecordRequest d n e m0 \<noteq> None)"
proof -
  have "length (responseTimes (NewMetricsCollector now)) \<le> 1000"
    by (simp add: NewMetricsCollector_def)
  from RecordRequests_window_from [OF this, of calls]
  obtain m where m: "RecordRequests calls (NewMetricsCollector now) = Some m"
    "responseTimes m = drop (length calls - 1000) (map fst calls)"
    "calls \<noteq> [] \<longrightarrow> responseTimes m \<noteq> [] \<and>
        avgResponseTime m = int64_div (sum_list (responseTimes m)) (of_nat (length (responseTimes m)))"
    by (auto simp: NewMetricsCollector_def)
  have len: "length (responseTimes m) \<le> 1000"
    by (simp add: m(2))
  have "sint (avgResponseTime m) =
          sum_list (map sint (responseTimes m)) sdiv int (length (responseTimes m))"
    if "calls \<noteq> []" "- (2 ^ 63) \<le> sum_list (map sint (responseTimes m))"
      "sum_list (map sint (responseTimes m)) < 2 ^ 63"
    using m(3) that int64_div_exact [OF that(2,3) len] by simp
  with m len RecordRequest_total show ?thesis by blast
qed

theorem RecordRequests_window_witness:
  "(\<exists>m. RecordRequests [(1, ''echo'', False), (2, ''echo'', True)] (NewMetricsCollector 0) = Some m \<and>
        responseTimes m = [1, 2] \<and> sint (avgResponseTime m) = 1) \<and>
   (\<exists>m. RecordRequests (replicate 1001 (5, ''echo'', False)) (NewMetricsCollector 0) = Some m \<and>
        responseTimes m = replicate 1000 5 \<and> sint (avgResponseTime m) = 5)"
proof -
  let ?small = "[(1, ''echo'', False), (2, ''echo'', True)] :: (int64 \<times> string \<times> bool) list"
  let ?big = "replicate 1001 (5, ''echo'', False) :: (int64 \<times> string \<times> bool) list"
  from RecordRequests_window [of ?small 0]
  obtain m where m: "RecordRequests ?small (NewMetricsCollector 0) = Some m"
    "responseTimes m = drop (length ?small - 1000) (map fst ?small)"
    "- (2 ^ 63) \<le> sum_list (map sint (responseTimes m)) \<and>
          sum_list (map sint (responseTimes m)) < 2 ^ 63 \<longrightarrow>
            sint (avgResponseTime m) =
              sum_list (map sint (responseTimes m)) sdiv int (length (responseTimes m))"
    by blast
  from m(2) have rts: "responseTimes m = [1, 2]" by simp
  with m(3) have "sint (avgResponseTime m) = 1" by simp
  with m(1) rts have small: "\<exists>m. RecordRequests ?small (NewMetricsCollector 0) = Some m \<and>
        responseTimes m = [1, 2] \<and> sint (avgResponseTime m) = 1"
    by blast
  have ne: "?big \<noteq> []" by simp
  from RecordRequests_window [of ?big 0] ne
  obtain b where b: "RecordRequests ?big (NewMetricsCollector 0) = Some b"
    "responseTimes b = drop (length ?big - 1000) (map fst ?big)"
    "- (2 ^ 63) \<le> sum_list (map sint (responseTimes b)) \<and>
          sum_list (map sint (responseTimes b)) < 2 ^ 63 \<longrightarrow>
            sint (avgResponseTime b) =
              sum_list (map sint (responseTimes b)) sdiv int (length (responseTimes b))"
    by blast
  from b(2) have brts: "responseTimes b = replicate 1000 5" by simp
  with b(3) have "sint (avgResponseTime b) = 5" by (simp add: sum_list_replicate)
  with b(1) brts have "\<exists>m. RecordRequests ?big (NewMetricsCollector 0) = Some m \<and>
        responseTimes m = replicate 1000 5 \<and> sint (avgResponseTime m) = 5"
    by blast
  with small show ?thesis by blast
qed

end
